theory Spec2Isabelle
  imports Main "HOL-Library.Sublist"
begin

section \<open>Python text operations used by the attestation server\<close>

text \<open>
  Text is a \<open>string\<close>: a list of characters, one \<open>char\<close> per code point, for the code
  points 0 to 255 (ASCII and Latin-1). On this range the functions below are Python's
  \<^verbatim>\<open>str.lower\<close>, \<^verbatim>\<open>str.strip\<close>, \<^verbatim>\<open>str.split(sep)\<close> for a one-character separator and
  the operator \<^verbatim>\<open>in\<close> on strings. Code points above 255 are outside the model.
\<close>

definition nl :: char where
  "nl = CHR 0x0A"

definition lower_char :: "char \<Rightarrow> char" where
  "lower_char c =
     (let n = (of_char c :: nat)
      in if (65 \<le> n \<and> n \<le> 90) \<or> (192 \<le> n \<and> n \<le> 214) \<or> (216 \<le> n \<and> n \<le> 222)
         then char_of (n + 32) else c)"

definition lower :: "string \<Rightarrow> string" where
  "lower s = map lower_char s"

definition is_space :: "char \<Rightarrow> bool" where
  "is_space c = ((of_char c :: nat) \<in> set [9, 10, 11, 12, 13, 28, 29, 30, 31, 32, 133, 160])"

definition lstrip :: "string \<Rightarrow> string" where
  "lstrip s = dropWhile is_space s"

definition rstrip :: "string \<Rightarrow> string" where
  "rstrip s = rev (dropWhile is_space (rev s))"

definition strip :: "string \<Rightarrow> string" where
  "strip s = rstrip (lstrip s)"

text \<open>
  \<^verbatim>\<open>s.split(sep)\<close> scans the text once; \<open>cur\<close> is the piece being read. The result
  always has at least one piece.
\<close>

fun split_from :: "char \<Rightarrow> string \<Rightarrow> string \<Rightarrow> string list" where
  "split_from sep cur [] = [cur]"
| "split_from sep cur (c # cs) =
     (if c = sep then cur # split_from sep [] cs else split_from sep (cur @ [c]) cs)"

definition split_on :: "char \<Rightarrow> string \<Rightarrow> string list" where
  "split_on sep s = split_from sep [] s"

fun contains :: "string \<Rightarrow> string \<Rightarrow> bool" where
  "contains sub [] = (sub = [])"
| "contains sub (c # cs) = (prefix sub (c # cs) \<or> contains sub cs)"

section \<open>Exceptions and external calls\<close>

text \<open>
  The exception classes the collectors can meet. All of them are subclasses of Python's
  \<^verbatim>\<open>Exception\<close>; \<^verbatim>\<open>FileNotFoundError\<close> is a subclass of \<^verbatim>\<open>OSError\<close>. An exception
  value carries its class and the text \<^verbatim>\<open>str(e)\<close>.
\<close>

datatype exc_class =
    FileNotFoundError | OSError | TimeoutExpired | CalledProcessError
  | UnicodeDecodeError | JSONDecodeError | AttributeError | TypeError | IndexError
  | Exception

datatype exn = Exn exc_class string

fun cls :: "exn \<Rightarrow> exc_class" where
  "cls (Exn c m) = c"

fun str :: "exn \<Rightarrow> string" where
  "str (Exn c m) = m"

fun issubclass :: "exc_class \<Rightarrow> exc_class \<Rightarrow> bool" where
  "issubclass c Exception = True"
| "issubclass FileNotFoundError OSError = True"
| "issubclass c d = (c = d)"

definition isinstance :: "exn \<Rightarrow> exc_class \<Rightarrow> bool" where
  "isinstance e c = issubclass (cls e) c"

text \<open>
  \<open>proc\<close> is the outcome of \<^verbatim>\<open>subprocess.check_output(cmd, stderr=DEVNULL, timeout=t).decode()\<close>:
  the decoded standard output, or the exception raised (missing executable, timeout,
  non-zero exit status, undecodable bytes).
\<close>

type_synonym proc = "exn + string"

section \<open>Platform detection\<close>

text \<open>
  \<^verbatim>\<open>get_tee_platform\<close>: the whole body is inside \<^verbatim>\<open>try\<close>, and
  \<^verbatim>\<open>except Exception: return 'Unknown'\<close> handles what it raises; an exception that is not
  an \<^verbatim>\<open>Exception\<close> would propagate.
\<close>

definition get_tee_platform_body :: "proc \<Rightarrow> exn + string" where
  "get_tee_platform_body r =
     (case r of
        Inl e \<Rightarrow> Inl e
      | Inr dmesg \<Rightarrow>
          if contains ''Intel TDX'' dmesg \<or> contains ''tdx'' (lower dmesg) then Inr ''Intel-TDX''
          else if contains ''SEV-SNP'' dmesg \<or> contains ''sev'' (lower dmesg) then Inr ''AMD-SEV-SNP''
          else if contains ''Memory Encryption'' dmesg then Inr ''AMD-SEV-SNP''
          else Inr ''Unknown'')"

definition get_tee_platform :: "proc \<Rightarrow> exn + string" where
  "get_tee_platform r =
     (case get_tee_platform_body r of
        Inr v \<Rightarrow> Inr v
      | Inl e \<Rightarrow> if isinstance e Exception then Inr ''Unknown'' else Inl e)"

section \<open>Kernel evidence lines\<close>

definition tee_keywords :: "string list" where
  "tee_keywords = [''tdx'', ''sev'', ''memory encryption'', ''confidential'', ''encrypted'']"

text \<open>The \<^verbatim>\<open>for line in lines\<close> loop, with \<^verbatim>\<open>tee_lines\<close> as the accumulator.\<close>

fun tee_lines_loop :: "string list \<Rightarrow> string list \<Rightarrow> string list" where
  "tee_lines_loop [] tee_lines = tee_lines"
| "tee_lines_loop (line # lines) tee_lines =
     (let line_lower = lower line
      in if list_ex (\<lambda>kw. contains kw line_lower) tee_keywords
         then tee_lines_loop lines (tee_lines @ [strip line])
         else tee_lines_loop lines tee_lines)"

definition get_tee_dmesg_lines_body :: "proc \<Rightarrow> exn + string list" where
  "get_tee_dmesg_lines_body r =
     (case r of
        Inl e \<Rightarrow> Inl e
      | Inr dmesg \<Rightarrow> Inr (take 10 (tee_lines_loop (split_on nl dmesg) [])))"

definition get_tee_dmesg_lines :: "proc \<Rightarrow> exn + string list" where
  "get_tee_dmesg_lines r =
     (case get_tee_dmesg_lines_body r of
        Inr v \<Rightarrow> Inr v
      | Inl e \<Rightarrow> if isinstance e Exception then Inr [''Error reading dmesg: '' @ str e] else Inl e)"

section \<open>Cloud attestation document\<close>

text \<open>
  A value returned by \<^verbatim>\<open>json.loads\<close>. A JSON object is the list of its members; a key
  is looked up with \<open>map_of\<close>. A number is an \<^verbatim>\<open>int\<close> or a \<^verbatim>\<open>float\<close>; the code never
  reads its value, and a float is kept as the text it was read from.
\<close>

datatype json =
    JNull | JBool bool | JInt int | JFloat string | JStr string | JArr "json list"
  | JObj "(string \<times> json) list"

text \<open>The name of the Python type of a value, as exception texts print it.\<close>

definition type_name :: "json \<Rightarrow> string" where
  "type_name x =
     (case x of
        JNull \<Rightarrow> ''NoneType'' | JBool b \<Rightarrow> ''bool'' | JInt i \<Rightarrow> ''int'' | JFloat f \<Rightarrow> ''float''
      | JStr s \<Rightarrow> ''str'' | JArr xs \<Rightarrow> ''list'' | JObj kvs \<Rightarrow> ''dict'')"

text \<open>The quotation marks that occur in exception texts.\<close>

definition sq :: string where
  "sq = [CHR 0x27]"

definition dq :: string where
  "dq = [CHR 0x22]"

text \<open>
  \<^verbatim>\<open>data.get(key, default)\<close>: only a dict has the method. On any other value Python
  raises \<^verbatim>\<open>AttributeError\<close> with the text \<^verbatim>\<open>'T' object has no attribute 'get'\<close>, \<^verbatim>\<open>T\<close>
  the type of the value.
\<close>

definition dict_get :: "json \<Rightarrow> string \<Rightarrow> json \<Rightarrow> exn + json" where
  "dict_get data key dflt =
     (case data of
        JObj kvs \<Rightarrow> Inr (case map_of kvs key of Some v \<Rightarrow> v | None \<Rightarrow> dflt)
      | _ \<Rightarrow> Inl (Exn AttributeError
                   (sq @ type_name data @ sq @ '' object has no attribute '' @ sq @ ''get'' @ sq)))"

text \<open>
  \<^verbatim>\<open>len(x)\<close>: defined for strings, lists and dicts; on any other value Python raises
  \<^verbatim>\<open>TypeError\<close> with the text \<^verbatim>\<open>object of type 'T' has no len()\<close>.
\<close>

definition py_len :: "json \<Rightarrow> exn + nat" where
  "py_len x =
     (case x of
        JStr s \<Rightarrow> Inr (length s)
      | JArr xs \<Rightarrow> Inr (length xs)
      | JObj kvs \<Rightarrow> Inr (length (remdups (map fst kvs)))
      | _ \<Rightarrow> Inl (Exn TypeError (''object of type '' @ sq @ type_name x @ sq @ '' has no len()'')))"

text \<open>
  \<^verbatim>\<open>x[:200] + '...'\<close>: a string is sliced and extended. A list is sliced, and adding a
  string to it raises \<^verbatim>\<open>can only concatenate list (not "str") to list\<close>; slicing a dict
  raises \<^verbatim>\<open>unhashable type: 'slice'\<close> (the text of CPython 3.11); any other value is not
  subscriptable. All of these are \<^verbatim>\<open>TypeError\<close>.
\<close>

definition slice_200_dots :: "json \<Rightarrow> exn + json" where
  "slice_200_dots x =
     (case x of
        JStr s \<Rightarrow> Inr (JStr (take 200 s @ ''...''))
      | JArr xs \<Rightarrow>
          Inl (Exn TypeError (''can only concatenate list (not '' @ dq @ ''str'' @ dq @ '') to list''))
      | JObj kvs \<Rightarrow> Inl (Exn TypeError (''unhashable type: '' @ sq @ ''slice'' @ sq))
      | _ \<Rightarrow> Inl (Exn TypeError (sq @ type_name x @ sq @ '' object is not subscriptable'')))"

datatype azure_result = Attestation (encoding: json) (signature: json) | AttestationError string

text \<open>
  The argument is the outcome of \<^verbatim>\<open>json.loads(subprocess.check_output([curl ...]).decode())\<close>.
\<close>

definition get_azure_attestation_body :: "exn + json \<Rightarrow> exn + azure_result" where
  "get_azure_attestation_body d =
     (case d of
        Inl e \<Rightarrow> Inl e
      | Inr data \<Rightarrow>
          (case dict_get data ''encoding'' (JStr ''unknown'') of
             Inl e \<Rightarrow> Inl e
           | Inr enc \<Rightarrow>
               (case dict_get data ''signature'' (JStr []) of
                  Inl e \<Rightarrow> Inl e
                | Inr sig \<Rightarrow>
                    (case py_len sig of
                       Inl e \<Rightarrow> Inl e
                     | Inr n \<Rightarrow>
                         if n > 200
                         then (case slice_200_dots sig of
                                 Inl e \<Rightarrow> Inl e
                               | Inr t \<Rightarrow> Inr (Attestation enc t))
                         else Inr (Attestation enc sig)))))"

definition get_azure_attestation :: "exn + json \<Rightarrow> exn + azure_result" where
  "get_azure_attestation d =
     (case get_azure_attestation_body d of
        Inr v \<Rightarrow> Inr v
      | Inl e \<Rightarrow> if isinstance e Exception then Inr (AttestationError (str e)) else Inl e)"

section \<open>VM size\<close>

definition get_vm_size :: "proc \<Rightarrow> string option \<Rightarrow> exn + string" where
  "get_vm_size r VM_SIZE =
     (case r of
        Inr result \<Rightarrow> Inr (strip result)
      | Inl e \<Rightarrow>
          if isinstance e Exception
          then Inr (case VM_SIZE of Some v \<Rightarrow> v | None \<Rightarrow> ''Unknown'')
          else Inl e)"

section \<open>TPM registers\<close>

type_synonym pcr_table = "string \<rightharpoonup> string"

text \<open>One pass of the loop body over a line of the tool's output.\<close>

definition tpm_line :: "string \<Rightarrow> pcr_table \<Rightarrow> pcr_table" where
  "tpm_line line pcr_values =
     (if contains '':'' line \<and> contains ''0x'' line
      then (let parts = split_on (CHR '':'') (strip line)
            in if length parts \<ge> 2
               then pcr_values(strip (parts ! 0) \<mapsto> strip (parts ! 1))
               else pcr_values)
      else pcr_values)"

fun tpm_loop :: "string list \<Rightarrow> pcr_table \<Rightarrow> pcr_table" where
  "tpm_loop [] pcr_values = pcr_values"
| "tpm_loop (line # lines) pcr_values = tpm_loop lines (tpm_line line pcr_values)"

text \<open>
  \<^verbatim>\<open>pcr_values\<close> is created empty before the \<^verbatim>\<open>try\<close>. The only statement of the
  \<^verbatim>\<open>try\<close> block that raises is the call of the tool, before the loop, so a handler
  finds \<^verbatim>\<open>pcr_values\<close> as it was created.
\<close>

definition get_tpm_pcr_values :: "proc \<Rightarrow> exn + pcr_table" where
  "get_tpm_pcr_values r =
     (let pcr_values = Map.empty
      in case r of
           Inr result \<Rightarrow> Inr (tpm_loop (split_on nl result) pcr_values)
         | Inl e \<Rightarrow>
             if isinstance e FileNotFoundError
             then Inr (pcr_values(''error'' \<mapsto> ''tpm2-tools not installed''))
             else if isinstance e TimeoutExpired
             then Inr (pcr_values(''error'' \<mapsto> ''TPM read timeout''))
             else if isinstance e Exception
             then Inr (pcr_values(''error'' \<mapsto> str e))
             else Inl e)"

section \<open>GPU confidential-computing status\<close>

record gpu_status =
  gpu_detected :: bool
  gpu_tee_verified :: bool
  nvidia_cc_mode :: string
  gpu_model :: "string option"
  error :: "string option"

text \<open>
  The loop that looks for the model: the first line containing \<^verbatim>\<open>Product Name\<close> ends
  it, either by \<^verbatim>\<open>break\<close> or by the \<^verbatim>\<open>IndexError\<close> of \<^verbatim>\<open>line.split(':')[1]\<close>.
\<close>

fun gpu_model_loop :: "string list \<Rightarrow> gpu_status \<Rightarrow> exn + gpu_status" where
  "gpu_model_loop [] result = Inr result"
| "gpu_model_loop (line # lines) result =
     (if contains ''Product Name'' line
      then (let parts = split_on (CHR '':'') line
            in if 1 < length parts
               then Inr (result\<lparr>gpu_model := Some (strip (parts ! 1))\<rparr>)
               else Inl (Exn IndexError ''list index out of range''))
      else gpu_model_loop lines result)"

text \<open>
  The \<^verbatim>\<open>except\<close> clauses, applied to the exception and to \<^verbatim>\<open>result\<close> as it is when
  the exception is raised.
\<close>

definition gpu_except :: "exn \<Rightarrow> gpu_status \<Rightarrow> exn + gpu_status" where
  "gpu_except e result =
     (if isinstance e FileNotFoundError then Inr result
      else if isinstance e Exception then Inr (result\<lparr>error := Some (str e)\<rparr>)
      else Inl e)"

definition get_gpu_tee_status :: "proc \<Rightarrow> exn + gpu_status" where
  "get_gpu_tee_status r =
     (let result = \<lparr>gpu_detected = False, gpu_tee_verified = False,
                     nvidia_cc_mode = ''unknown'', gpu_model = None, error = None\<rparr>
      in case r of
           Inl e \<Rightarrow> gpu_except e result
         | Inr nvidia_smi \<Rightarrow>
             (let result1 = result\<lparr>gpu_detected := True\<rparr>;
                  result2 = (if contains ''Confidential Computing'' nvidia_smi
                             then result1\<lparr>gpu_tee_verified := True, nvidia_cc_mode := ''on''\<rparr>
                             else result1\<lparr>nvidia_cc_mode := ''off''\<rparr>)
              in case gpu_model_loop (split_on nl nvidia_smi) result2 of
                   Inr result3 \<Rightarrow> Inr result3
                 | Inl e \<Rightarrow> gpu_except e result2))"

section \<open>The attestation response\<close>

text \<open>
  What one request reads from outside: the outcome of each external call, the
  environment variable and the clock. \<^verbatim>\<open>dmesg\<close> is run twice, once by each of the two
  functions that read the kernel log.
\<close>

record env =
  dmesg_platform :: proc
  dmesg_lines :: proc
  curl_vm_size :: proc
  environ_VM_SIZE :: "string option"
  curl_attested :: "exn + json"
  tpm2_pcrread :: proc
  nvidia_smi_q :: proc
  utc_now :: string

text \<open>The response dict; the three GPU keys are present or absent.\<close>

record response =
  platform :: string
  tee_verified :: bool
  vm_size :: string
  azure_attestation :: azure_result
  tpm_pcr_sha256 :: pcr_table
  tee_dmesg :: "string list"
  timestamp :: string
  gpu :: "string option"
  resp_gpu_tee_verified :: "bool option"
  resp_nvidia_cc_mode :: "string option"

record http_response =
  status :: nat
  headers :: "(string \<times> string) list"
  body :: response

definition add_gpu_info :: "gpu_status \<Rightarrow> response \<Rightarrow> response" where
  "add_gpu_info gpu_st resp =
     (if gpu_detected gpu_st
      then resp\<lparr>gpu := Some (case gpu_model gpu_st of Some m \<Rightarrow> m | None \<Rightarrow> ''NVIDIA-GPU''),
                resp_gpu_tee_verified := Some (gpu_tee_verified gpu_st),
                resp_nvidia_cc_mode := Some (nvidia_cc_mode gpu_st)\<rparr>
      else resp)"

definition handle_attestation :: "env \<Rightarrow> exn + http_response" where
  "handle_attestation ev =
     (case get_tee_platform (dmesg_platform ev) of
        Inl e \<Rightarrow> Inl e
      | Inr platform_v \<Rightarrow>
     (case get_tee_dmesg_lines (dmesg_lines ev) of
        Inl e \<Rightarrow> Inl e
      | Inr tee_dmesg_v \<Rightarrow>
     (case get_vm_size (curl_vm_size ev) (environ_VM_SIZE ev) of
        Inl e \<Rightarrow> Inl e
      | Inr vm_size_v \<Rightarrow>
     (case get_azure_attestation (curl_attested ev) of
        Inl e \<Rightarrow> Inl e
      | Inr azure_v \<Rightarrow>
     (case get_tpm_pcr_values (tpm2_pcrread ev) of
        Inl e \<Rightarrow> Inl e
      | Inr tpm_v \<Rightarrow>
     (let resp = \<lparr>platform = platform_v,
                   tee_verified = (platform_v \<in> set [''Intel-TDX'', ''AMD-SEV-SNP'']),
                   vm_size = vm_size_v,
                   azure_attestation = azure_v,
                   tpm_pcr_sha256 = tpm_v,
                   tee_dmesg = tee_dmesg_v,
                   timestamp = utc_now ev,
                   gpu = None, resp_gpu_tee_verified = None, resp_nvidia_cc_mode = None\<rparr>
      in case get_gpu_tee_status (nvidia_smi_q ev) of
           Inl e \<Rightarrow> Inl e
         | Inr gpu_st \<Rightarrow>
             Inr \<lparr>status = 200,
                  headers = [(''Content-type'', ''application/json''),
                             (''Access-Control-Allow-Origin'', ''*'')],
                  body = add_gpu_info gpu_st resp\<rparr>))))))"

text \<open>
  A host used as an example: the kernel log of a TDX guest, a GPU tool that runs and
  prints no product name, and every other tool failing in a different way.
\<close>

definition degraded_env :: env where
  "degraded_env =
     \<lparr>dmesg_platform = Inr ''tdx: Guest detected'',
      dmesg_lines = Inl (Exn TimeoutExpired ''timed out after 5 seconds''),
      curl_vm_size = Inl (Exn CalledProcessError ''returned non-zero exit status 7''),
      environ_VM_SIZE = None,
      curl_attested = Inl (Exn JSONDecodeError ''Expecting value''),
      tpm2_pcrread = Inl (Exn FileNotFoundError ''No such file or directory''),
      nvidia_smi_q = Inr ''GPU 00000000:01:00.0'',
      utc_now = ''2026-01-29T12:00:00+00:00''\<rparr>"

section \<open>The specification's reading of a register line\<close>

text \<open>
  The specification's words for a register line: the line is split on its first colon,
  the part before it, trimmed, is the label, and the part after it, trimmed, is the value.
\<close>

definition spec_label :: "string \<Rightarrow> string" where
  "spec_label line = strip (takeWhile (\<lambda>c. c \<noteq> CHR '':'') line)"

definition spec_value :: "string \<Rightarrow> string" where
  "spec_value line = strip (tl (dropWhile (\<lambda>c. c \<noteq> CHR '':'') line))"

text \<open>What the code takes as the value: the text between the first and the second colon.\<close>

definition second_part :: "string \<Rightarrow> string" where
  "second_part line =
     strip (takeWhile (\<lambda>c. c \<noteq> CHR '':'') (tl (dropWhile (\<lambda>c. c \<noteq> CHR '':'') line)))"

text \<open>A well-formed register line \<^verbatim>\<open>N: 0xHEX\<close>: decimal digits, a colon, hexadecimal digits.\<close>

definition is_digit :: "char \<Rightarrow> bool" where
  "is_digit c = (c \<in> set ''0123456789'')"

definition is_hex_digit :: "char \<Rightarrow> bool" where
  "is_hex_digit c = (c \<in> set ''0123456789abcdefABCDEF'')"

definition pcr_line :: "string \<Rightarrow> string \<Rightarrow> string" where
  "pcr_line n h = n @ '': 0x'' @ h"

text \<open>A line of the tool's output makes an entry when it has a colon and the marker.\<close>

definition is_entry :: "string \<Rightarrow> bool" where
  "is_entry line = (CHR '':'' \<in> set line \<and> contains ''0x'' line)"

section \<open>Facts about the text operations\<close>

lemma contains_sublist: "contains sub s = sublist sub s"
  by (induction s) (auto simp: sublist_Cons_right)

lemma contains_trans: "contains a b \<Longrightarrow> contains b c \<Longrightarrow> contains a c"
  unfolding contains_sublist by (rule sublist_order.order_trans)

lemma contains_lower: "contains sub s \<Longrightarrow> contains (lower sub) (lower s)"
  unfolding contains_sublist lower_def by (metis map_append sublist_def)

lemma contains_single: "contains [c] s = (c \<in> set s)"
  by (induction s) auto

lemma split_from_cur:
  "split_from sep cur s = (cur @ hd (split_from sep [] s)) # tl (split_from sep [] s)"
proof (induction s arbitrary: cur)
  case Nil
  then show ?case by simp
next
  case (Cons c cs)
  show ?case
  proof (cases "c = sep")
    case True
    then show ?thesis by simp
  next
    case False
    have "split_from sep (cur @ [c]) cs
            = ((cur @ [c]) @ hd (split_from sep [] cs)) # tl (split_from sep [] cs)"
      by (rule Cons.IH)
    moreover have "split_from sep [c] cs
            = ([c] @ hd (split_from sep [] cs)) # tl (split_from sep [] cs)"
      by (rule Cons.IH)
    ultimately show ?thesis using False by simp
  qed
qed

lemma split_on_Nil: "split_on sep [] = [[]]"
  by (simp add: split_on_def)

lemma split_on_Cons:
  "split_on sep (c # cs) =
     (if c = sep then [] # split_on sep cs
      else (c # hd (split_on sep cs)) # tl (split_on sep cs))"
  using split_from_cur[of sep "[c]" cs] by (simp add: split_on_def)

lemma split_on_not_Nil: "split_on sep s \<noteq> []"
  by (induction s) (auto simp: split_on_Nil split_on_Cons)

lemma length_split_on: "length (split_on sep s) = Suc (length (filter (\<lambda>c. c = sep) s))"
  by (induction s) (auto simp: split_on_Nil split_on_Cons split_on_not_Nil)

lemma hd_split_on: "hd (split_on sep s) = takeWhile (\<lambda>c. c \<noteq> sep) s"
  by (induction s) (auto simp: split_on_Nil split_on_Cons)

lemma tl_split_on: "tl (split_on sep s) = (if sep \<in> set s then split_on sep (tl (dropWhile (\<lambda>c. c \<noteq> sep) s)) else [])"
  by (induction s) (auto simp: split_on_Nil split_on_Cons)

lemma split_on_no_sep: "sep \<notin> set s \<Longrightarrow> split_on sep s = [s]"
  by (induction s) (auto simp: split_on_Nil split_on_Cons)

lemma split_on_append: "sep \<notin> set a \<Longrightarrow> split_on sep (a @ sep # b) = a # split_on sep b"
  by (induction a) (auto simp: split_on_Cons)

lemma split_on_length_ge2: "(2 \<le> length (split_on sep s)) = (sep \<in> set s)"
  by (simp add: length_split_on filter_empty_conv Suc_le_eq length_greater_0_conv)

lemma nth0_split_on: "split_on sep s ! 0 = takeWhile (\<lambda>c. c \<noteq> sep) s"
  using hd_split_on[of sep s] split_on_not_Nil[of sep s] by (simp add: hd_conv_nth)

lemma nth1_split_on: "sep \<in> set s \<Longrightarrow> split_on sep s ! 1 = takeWhile (\<lambda>c. c \<noteq> sep) (tl (dropWhile (\<lambda>c. c \<noteq> sep) s))"
proof -
  assume a: "sep \<in> set s"
  have "split_on sep s ! 1 = tl (split_on sep s) ! 0"
    using split_on_not_Nil[of sep s] by (cases "split_on sep s") auto
  also have "\<dots> = split_on sep (tl (dropWhile (\<lambda>c. c \<noteq> sep) s)) ! 0"
    using a by (simp add: tl_split_on)
  finally show ?thesis by (simp add: nth0_split_on)
qed

lemma set_lstrip: "c \<in> set s \<Longrightarrow> \<not> is_space c \<Longrightarrow> c \<in> set (lstrip s)"
  unfolding lstrip_def by (induction s) auto

lemma set_rstrip: "c \<in> set s \<Longrightarrow> \<not> is_space c \<Longrightarrow> c \<in> set (rstrip s)"
proof -
  assume a: "c \<in> set s" "\<not> is_space c"
  have "c \<in> set (dropWhile is_space (rev s))"
    using a set_lstrip[of c "rev s"] by (simp add: lstrip_def)
  then show ?thesis by (simp add: rstrip_def)
qed

lemma set_strip: "c \<in> set s \<Longrightarrow> \<not> is_space c \<Longrightarrow> c \<in> set (strip s)"
  by (simp add: strip_def set_lstrip set_rstrip)

lemma set_strip_subset: "c \<in> set (strip s) \<Longrightarrow> c \<in> set s"
proof -
  assume "c \<in> set (strip s)"
  then have "c \<in> set (dropWhile is_space (rev (dropWhile is_space s)))"
    by (simp add: strip_def lstrip_def rstrip_def)
  then have "c \<in> set (rev (dropWhile is_space s))" by (rule set_dropWhileD)
  then have "c \<in> set (dropWhile is_space s)" by simp
  then show ?thesis by (rule set_dropWhileD)
qed

lemma colon_not_space: "\<not> is_space (CHR '':'')"
  by (simp add: is_space_def)

lemma strip_id: "s = [] \<or> (\<not> is_space (hd s) \<and> \<not> is_space (last s)) \<Longrightarrow> strip s = s"
proof (cases s)
  case Nil
  then show ?thesis by (simp add: strip_def lstrip_def rstrip_def)
next
  case (Cons a list)
  assume "s = [] \<or> (\<not> is_space (hd s) \<and> \<not> is_space (last s))"
  with Cons have h: "\<not> is_space (hd s)" and l: "\<not> is_space (last s)" by auto
  have 1: "lstrip s = s" using h Cons by (simp add: lstrip_def)
  have "hd (rev s) = last s" using Cons by (simp add: hd_rev)
  then have "dropWhile is_space (rev s) = rev s"
    using l Cons by (cases "rev s") auto
  then show ?thesis by (simp add: strip_def rstrip_def 1)
qed

lemma strip_no_space: "\<forall>c\<in>set s. \<not> is_space c \<Longrightarrow> strip s = s"
  by (rule strip_id) (cases s, auto)

section \<open>Exceptions\<close>

lemma isinstance_Exception: "isinstance e Exception"
  by (cases e) (simp add: isinstance_def)

section \<open>Platform detection: the rules and their order\<close>

lemma intel_tdx_lower: "contains ''Intel TDX'' s \<Longrightarrow> contains ''tdx'' (lower s)"
proof -
  assume "contains ''Intel TDX'' s"
  then have "contains (lower ''Intel TDX'') (lower s)" by (rule contains_lower)
  moreover have "contains ''tdx'' (lower ''Intel TDX'')" by code_simp
  ultimately show ?thesis by (rule contains_trans[rotated])
qed

lemma sev_snp_lower: "contains ''SEV-SNP'' s \<Longrightarrow> contains ''sev'' (lower s)"
proof -
  assume "contains ''SEV-SNP'' s"
  then have "contains (lower ''SEV-SNP'') (lower s)" by (rule contains_lower)
  moreover have "contains ''sev'' (lower ''SEV-SNP'')" by code_simp
  ultimately show ?thesis by (rule contains_trans[rotated])
qed

text \<open>
  C3 (as amended). For every kernel-log text the detector returns Intel-TDX when the
  lower-cased log contains "tdx" (which covers "Intel TDX"); otherwise AMD-SEV-SNP when the
  lower-cased log contains "sev" (which covers "SEV-SNP"); otherwise AMD-SEV-SNP when the
  log contains "Memory Encryption" in exactly this spelling; otherwise Unknown. When the
  log could not be read the result is Unknown. The first matching rule wins.
\<close>

theorem get_tee_platform_rules:
  "get_tee_platform (Inr dmesg) =
     Inr (if contains ''tdx'' (lower dmesg) then ''Intel-TDX''
          else if contains ''sev'' (lower dmesg) then ''AMD-SEV-SNP''
          else if contains ''Memory Encryption'' dmesg then ''AMD-SEV-SNP''
          else ''Unknown'')
   \<and> get_tee_platform (Inl e) = Inr ''Unknown''"
  using intel_tdx_lower[of dmesg] sev_snp_lower[of dmesg]
  by (auto simp: get_tee_platform_def get_tee_platform_body_def isinstance_Exception)

theorem get_tee_platform_rules_witness:
  "get_tee_platform (Inr ''[0.1] Memory Encryption Features active'') = Inr ''AMD-SEV-SNP''
   \<and> get_tee_platform (Inr ''[0.1] tdx: Guest detected, SEV off'') = Inr ''Intel-TDX''
   \<and> get_tee_platform (Inl (Exn FileNotFoundError ''dmesg'')) = Inr ''Unknown''"
proof -
  have a: "\<not> contains ''tdx'' (lower ''[0.1] Memory Encryption Features active'')"
    and b: "\<not> contains ''sev'' (lower ''[0.1] Memory Encryption Features active'')"
    and c: "contains ''Memory Encryption'' ''[0.1] Memory Encryption Features active''"
    and d: "contains ''tdx'' (lower ''[0.1] tdx: Guest detected, SEV off'')"
    by code_simp+
  show ?thesis
    using get_tee_platform_rules[of "''[0.1] Memory Encryption Features active''" "Exn FileNotFoundError ''dmesg''"]
      get_tee_platform_rules[of "''[0.1] tdx: Guest detected, SEV off''" "Exn FileNotFoundError ''dmesg''"]
      a b c d
    by simp
qed

text \<open>
  C3 as stated fails: a log that contains "memory encryption" in lower case, and neither
  "tdx" nor "sev", is classified Unknown, not AMD-SEV-SNP.
\<close>

theorem memory_encryption_case_counterexample:
  "contains ''memory encryption'' (lower ''memory encryption features active'')
   \<and> \<not> contains ''tdx'' (lower ''memory encryption features active'')
   \<and> \<not> contains ''sev'' (lower ''memory encryption features active'')
   \<and> get_tee_platform (Inr ''memory encryption features active'') = Inr ''Unknown''
   \<and> get_tee_platform (Inr ''memory encryption features active'') \<noteq> Inr ''AMD-SEV-SNP''"
  by code_simp

section \<open>Kernel evidence lines: bound and failure line\<close>

lemma tee_lines_loop_filter:
  "tee_lines_loop ls acc =
     acc @ map strip (filter (\<lambda>line. list_ex (\<lambda>kw. contains kw (lower line)) tee_keywords) ls)"
  by (induction ls arbitrary: acc) (simp_all add: Let_def)

text \<open>
  C6. The extractor always returns, and never more than 10 lines. For a log that was
  read, the result is the first 10 matching lines, trimmed, in their order, so it is empty
  when no line matches a keyword. When the read fails, and only then, the result is the
  one line made from the failure.
\<close>

theorem get_tee_dmesg_lines_bounded:
  "(\<exists>ls. get_tee_dmesg_lines r = Inr ls \<and> length ls \<le> 10)
   \<and> get_tee_dmesg_lines (Inr dmesg) =
       Inr (take 10 (map strip
              (filter (\<lambda>line. list_ex (\<lambda>kw. contains kw (lower line)) tee_keywords)
                 (split_on nl dmesg))))
   \<and> (filter (\<lambda>line. list_ex (\<lambda>kw. contains kw (lower line)) tee_keywords)
          (split_on nl dmesg) = []
        \<longrightarrow> get_tee_dmesg_lines (Inr dmesg) = Inr [])
   \<and> get_tee_dmesg_lines (Inl e) = Inr [''Error reading dmesg: '' @ str e]"
proof -
  have ok: "get_tee_dmesg_lines (Inr d) =
       Inr (take 10 (map strip
              (filter (\<lambda>line. list_ex (\<lambda>kw. contains kw (lower line)) tee_keywords)
                 (split_on nl d))))" for d
    by (simp add: get_tee_dmesg_lines_def get_tee_dmesg_lines_body_def tee_lines_loop_filter)
  have err: "get_tee_dmesg_lines (Inl x) = Inr [''Error reading dmesg: '' @ str x]" for x
    by (simp add: get_tee_dmesg_lines_def get_tee_dmesg_lines_body_def isinstance_Exception)
  have bound: "\<exists>ls. get_tee_dmesg_lines r = Inr ls \<and> length ls \<le> 10"
  proof (cases r)
    case (Inl x)
    then show ?thesis by (simp add: err)
  next
    case (Inr d)
    then show ?thesis by (simp add: ok)
  qed
  have none: "filter (\<lambda>line. list_ex (\<lambda>kw. contains kw (lower line)) tee_keywords)
          (split_on nl dmesg) = []
        \<longrightarrow> get_tee_dmesg_lines (Inr dmesg) = Inr []"
    by (simp add: ok)
  show ?thesis
    by (intro conjI) (rule bound, rule ok, rule none, rule err)
qed

theorem get_tee_dmesg_lines_bounded_witness:
  "get_tee_dmesg_lines (Inr (''usb 1-1: new device'' @ [nl] @ ''eth0: link up'')) = Inr []
   \<and> get_tee_dmesg_lines (Inl (Exn TimeoutExpired ''timed out after 5 seconds''))
       = Inr [''Error reading dmesg: timed out after 5 seconds'']"
proof -
  have a: "filter (\<lambda>line. list_ex (\<lambda>kw. contains kw (lower line)) tee_keywords)
          (split_on nl (''usb 1-1: new device'' @ [nl] @ ''eth0: link up'')) = []"
    by code_simp
  note t = get_tee_dmesg_lines_bounded[of "Inl (Exn TimeoutExpired ''timed out after 5 seconds'')"
        "''usb 1-1: new device'' @ [nl] @ ''eth0: link up''"
        "Exn TimeoutExpired ''timed out after 5 seconds''"]
  have 1: "get_tee_dmesg_lines (Inr (''usb 1-1: new device'' @ [nl] @ ''eth0: link up'')) = Inr []"
    using t a by blast
  have 2: "get_tee_dmesg_lines (Inl (Exn TimeoutExpired ''timed out after 5 seconds''))
       = Inr [''Error reading dmesg: '' @ str (Exn TimeoutExpired ''timed out after 5 seconds'')]"
    using t by blast
  show ?thesis using 1 2 by simp
qed

section \<open>Cloud attestation: the signature preview\<close>

lemma azure_string_signature:
  "map_of kvs ''signature'' = Some (JStr s) \<Longrightarrow>
   get_azure_attestation (Inr (JObj kvs)) =
     Inr (Attestation (case map_of kvs ''encoding'' of Some v \<Rightarrow> v | None \<Rightarrow> JStr ''unknown'')
            (JStr (if 200 < length s then take 200 s @ ''...'' else s)))"
  by (simp add: get_azure_attestation_def get_azure_attestation_body_def dict_get_def
        py_len_def slice_200_dots_def)

lemma azure_signature_bound:
  "get_azure_attestation d = Inr (Attestation enc (JStr t)) \<Longrightarrow> length t \<le> 203"
  by (auto simp: get_azure_attestation_def get_azure_attestation_body_def dict_get_def
        py_len_def slice_200_dots_def isinstance_Exception
        split: sum.splits json.splits option.splits if_splits)

text \<open>
  C4. Whatever was fetched, a signature string that is returned has at most 203
  characters. For a document whose signature is a string: longer than 200 characters, the
  result is its first 200 characters followed by "..." (length 250 gives length 203, ending
  in "..."); at most 200 characters (150, say), the result is the signature unchanged.
\<close>

theorem signature_truncation:
  "(get_azure_attestation d = Inr (Attestation enc (JStr t)) \<longrightarrow> length t \<le> 203)
   \<and> (map_of kvs ''signature'' = Some (JStr s) \<longrightarrow>
        (\<exists>enc'. get_azure_attestation (Inr (JObj kvs)) =
                   Inr (Attestation enc' (JStr (if 200 < length s then take 200 s @ ''...'' else s))))
        \<and> (length s = 250 \<longrightarrow>
             (\<exists>enc' t'. get_azure_attestation (Inr (JObj kvs)) = Inr (Attestation enc' (JStr t'))
                \<and> length t' = 203 \<and> suffix ''...'' t'))
        \<and> (length s = 150 \<longrightarrow>
             (\<exists>enc'. get_azure_attestation (Inr (JObj kvs)) = Inr (Attestation enc' (JStr s)))))"
proof -
  have 1: "get_azure_attestation d = Inr (Attestation enc (JStr t)) \<longrightarrow> length t \<le> 203"
    using azure_signature_bound by blast
  have 2: "map_of kvs ''signature'' = Some (JStr s) \<longrightarrow>
        (\<exists>enc'. get_azure_attestation (Inr (JObj kvs)) =
                   Inr (Attestation enc' (JStr (if 200 < length s then take 200 s @ ''...'' else s))))
        \<and> (length s = 250 \<longrightarrow>
             (\<exists>enc' t'. get_azure_attestation (Inr (JObj kvs)) = Inr (Attestation enc' (JStr t'))
                \<and> length t' = 203 \<and> suffix ''...'' t'))
        \<and> (length s = 150 \<longrightarrow>
             (\<exists>enc'. get_azure_attestation (Inr (JObj kvs)) = Inr (Attestation enc' (JStr s))))"
  proof
    assume a: "map_of kvs ''signature'' = Some (JStr s)"
    note r = azure_string_signature[OF a]
    have p1: "\<exists>enc'. get_azure_attestation (Inr (JObj kvs)) =
                   Inr (Attestation enc' (JStr (if 200 < length s then take 200 s @ ''...'' else s)))"
      using r by blast
    have p2: "length s = 250 \<longrightarrow>
             (\<exists>enc' t'. get_azure_attestation (Inr (JObj kvs)) = Inr (Attestation enc' (JStr t'))
                \<and> length t' = 203 \<and> suffix ''...'' t')"
    proof
      assume l: "length s = 250"
      have "get_azure_attestation (Inr (JObj kvs)) =
         Inr (Attestation (case map_of kvs ''encoding'' of Some v \<Rightarrow> v | None \<Rightarrow> JStr ''unknown'')
            (JStr (take 200 s @ ''...'')))"
        using r l by simp
      moreover have "length (take 200 s @ ''...'') = 203" using l by simp
      moreover have "suffix ''...'' (take 200 s @ ''...'')" by (rule suffix_appendI) simp
      ultimately show "\<exists>enc' t'. get_azure_attestation (Inr (JObj kvs)) = Inr (Attestation enc' (JStr t'))
                \<and> length t' = 203 \<and> suffix ''...'' t'" by blast
    qed
    have p3: "length s = 150 \<longrightarrow>
             (\<exists>enc'. get_azure_attestation (Inr (JObj kvs)) = Inr (Attestation enc' (JStr s)))"
      using r by auto
    show "(\<exists>enc'. get_azure_attestation (Inr (JObj kvs)) =
                   Inr (Attestation enc' (JStr (if 200 < length s then take 200 s @ ''...'' else s))))
        \<and> (length s = 250 \<longrightarrow>
             (\<exists>enc' t'. get_azure_attestation (Inr (JObj kvs)) = Inr (Attestation enc' (JStr t'))
                \<and> length t' = 203 \<and> suffix ''...'' t'))
        \<and> (length s = 150 \<longrightarrow>
             (\<exists>enc'. get_azure_attestation (Inr (JObj kvs)) = Inr (Attestation enc' (JStr s))))"
      using p1 p2 p3 by blast
  qed
  show ?thesis using 1 2 by blast
qed

theorem signature_truncation_witness:
  "(\<exists>enc' t'. get_azure_attestation
        (Inr (JObj [(''encoding'', JStr ''pkcs7''), (''signature'', JStr (replicate 250 (CHR ''A'')))]))
        = Inr (Attestation enc' (JStr t')) \<and> length t' = 203 \<and> suffix ''...'' t')
   \<and> (\<exists>enc'. get_azure_attestation
        (Inr (JObj [(''encoding'', JStr ''pkcs7''), (''signature'', JStr (replicate 150 (CHR ''A'')))]))
        = Inr (Attestation enc' (JStr (replicate 150 (CHR ''A'')))))"
proof -
  have a: "map_of [(''encoding'', JStr ''pkcs7''), (''signature'', JStr (replicate 250 (CHR ''A'')))]
             ''signature'' = Some (JStr (replicate 250 (CHR ''A'')))"
    by simp
  have b: "map_of [(''encoding'', JStr ''pkcs7''), (''signature'', JStr (replicate 150 (CHR ''A'')))]
             ''signature'' = Some (JStr (replicate 150 (CHR ''A'')))"
    by simp
  have la: "length (replicate 250 (CHR ''A'')) = 250" by simp
  have lb: "length (replicate 150 (CHR ''A'')) = 150" by simp
  from signature_truncation[of "Inl (Exn Exception [])" JNull "[]"
        "[(''encoding'', JStr ''pkcs7''), (''signature'', JStr (replicate 250 (CHR ''A'')))]"
        "replicate 250 (CHR ''A'')"] a la
  have 1: "\<exists>enc' t'. get_azure_attestation
        (Inr (JObj [(''encoding'', JStr ''pkcs7''), (''signature'', JStr (replicate 250 (CHR ''A'')))]))
        = Inr (Attestation enc' (JStr t')) \<and> length t' = 203 \<and> suffix ''...'' t'"
    by blast
  from signature_truncation[of "Inl (Exn Exception [])" JNull "[]"
        "[(''encoding'', JStr ''pkcs7''), (''signature'', JStr (replicate 150 (CHR ''A'')))]"
        "replicate 150 (CHR ''A'')"] b lb
  have 2: "\<exists>enc'. get_azure_attestation
        (Inr (JObj [(''encoding'', JStr ''pkcs7''), (''signature'', JStr (replicate 150 (CHR ''A'')))]))
        = Inr (Attestation enc' (JStr (replicate 150 (CHR ''A''))))"
    by blast
  show ?thesis using 1 2 by blast
qed

section \<open>TPM registers: a failed read\<close>

lemma tpm_failure:
  "get_tpm_pcr_values (Inl e) =
     Inr [''error'' \<mapsto>
            (if isinstance e FileNotFoundError then ''tpm2-tools not installed''
             else if isinstance e TimeoutExpired then ''TPM read timeout''
             else str e)]"
  by (simp add: get_tpm_pcr_values_def isinstance_Exception)

section \<open>GPU status: the tool is missing, the tool has run\<close>

lemma gpu_model_loop_find:
  "gpu_model_loop ls st =
     (case find (contains ''Product Name'') ls of
        None \<Rightarrow> Inr st
      | Some line \<Rightarrow>
          if CHR '':'' \<in> set line
          then Inr (st\<lparr>gpu_model := Some (second_part line)\<rparr>)
          else Inl (Exn IndexError ''list index out of range''))"
proof (induction ls)
  case Nil
  then show ?case by simp
next
  case (Cons l ls)
  have len: "(1 < length (split_on (CHR '':'') l)) = (CHR '':'' \<in> set l)"
    using split_on_length_ge2[of "CHR '':''" l] by auto
  show ?case
  proof (cases "contains ''Product Name'' l")
    case True
    then show ?thesis
      using len nth1_split_on[of "CHR '':''" l]
      by (auto simp: Let_def second_part_def)
  next
    case False
    then show ?thesis using Cons.IH by simp
  qed
qed

lemma gpu_status_success:
  "get_gpu_tee_status (Inr out) =
     Inr \<lparr>gpu_detected = True,
          gpu_tee_verified = contains ''Confidential Computing'' out,
          nvidia_cc_mode = (if contains ''Confidential Computing'' out then ''on'' else ''off''),
          gpu_model = (case find (contains ''Product Name'') (split_on nl out) of
                         None \<Rightarrow> None
                       | Some line \<Rightarrow> if CHR '':'' \<in> set line then Some (second_part line) else None),
          error = (case find (contains ''Product Name'') (split_on nl out) of
                     None \<Rightarrow> None
                   | Some line \<Rightarrow> if CHR '':'' \<in> set line then None
                                   else Some ''list index out of range'')\<rparr>"
  by (simp add: get_gpu_tee_status_def gpu_model_loop_find gpu_except_def isinstance_def
        split: option.splits)

lemma gpu_status_not_found:
  "isinstance e FileNotFoundError \<Longrightarrow>
   get_gpu_tee_status (Inl e) =
     Inr \<lparr>gpu_detected = False, gpu_tee_verified = False, nvidia_cc_mode = ''unknown'',
          gpu_model = None, error = None\<rparr>"
  by (simp add: get_gpu_tee_status_def gpu_except_def)

text \<open>
  C8. When the GPU tool is missing the result is detected = false, verified = false,
  mode "unknown", no model and no error. When the tool has run, detected = true; verified
  is true with mode "on" when the output contains "Confidential Computing", and false with
  mode "off" otherwise; the model, when there is one, comes from the first line containing
  "Product Name" (the text after its first colon, up to a second colon, trimmed). The
  output "Confidential Computing", "Product Name: H100" gives detected, verified, "on",
  model "H100".
\<close>

theorem gpu_inspector_results:
  "(isinstance e FileNotFoundError \<longrightarrow>
      get_gpu_tee_status (Inl e) =
        Inr \<lparr>gpu_detected = False, gpu_tee_verified = False, nvidia_cc_mode = ''unknown'',
             gpu_model = None, error = None\<rparr>)
   \<and> (\<exists>g. get_gpu_tee_status (Inr out) = Inr g
        \<and> gpu_detected g
        \<and> gpu_tee_verified g = contains ''Confidential Computing'' out
        \<and> nvidia_cc_mode g = (if contains ''Confidential Computing'' out then ''on'' else ''off'')
        \<and> gpu_model g = (case find (contains ''Product Name'') (split_on nl out) of
                           None \<Rightarrow> None
                         | Some line \<Rightarrow>
                             if CHR '':'' \<in> set line then Some (second_part line) else None))
   \<and> get_gpu_tee_status (Inr (''Confidential Computing'' @ [nl] @ ''Product Name: H100'')) =
        Inr \<lparr>gpu_detected = True, gpu_tee_verified = True, nvidia_cc_mode = ''on'',
             gpu_model = Some ''H100'', error = None\<rparr>"
proof -
  have 1: "isinstance e FileNotFoundError \<longrightarrow>
      get_gpu_tee_status (Inl e) =
        Inr \<lparr>gpu_detected = False, gpu_tee_verified = False, nvidia_cc_mode = ''unknown'',
             gpu_model = None, error = None\<rparr>"
    by (simp add: gpu_status_not_found)
  have 2: "\<exists>g. get_gpu_tee_status (Inr out) = Inr g
        \<and> gpu_detected g
        \<and> gpu_tee_verified g = contains ''Confidential Computing'' out
        \<and> nvidia_cc_mode g = (if contains ''Confidential Computing'' out then ''on'' else ''off'')
        \<and> gpu_model g = (case find (contains ''Product Name'') (split_on nl out) of
                           None \<Rightarrow> None
                         | Some line \<Rightarrow>
                             if CHR '':'' \<in> set line then Some (second_part line) else None)"
    by (simp add: gpu_status_success)
  have 3: "get_gpu_tee_status (Inr (''Confidential Computing'' @ [nl] @ ''Product Name: H100'')) =
        Inr \<lparr>gpu_detected = True, gpu_tee_verified = True, nvidia_cc_mode = ''on'',
             gpu_model = Some ''H100'', error = None\<rparr>"
    by code_simp
  show ?thesis by (intro conjI) (rule 1, rule 2, rule 3)
qed

theorem gpu_inspector_results_witness:
  "get_gpu_tee_status (Inl (Exn FileNotFoundError ''nvidia-smi'')) =
        Inr \<lparr>gpu_detected = False, gpu_tee_verified = False, nvidia_cc_mode = ''unknown'',
             gpu_model = None, error = None\<rparr>"
proof -
  have h: "isinstance (Exn FileNotFoundError ''nvidia-smi'') FileNotFoundError"
    by (simp add: isinstance_def)
  show ?thesis using gpu_inspector_results[of "Exn FileNotFoundError ''nvidia-smi''" "[]"] h by blast
qed

section \<open>GPU status: failures\<close>

text \<open>
  C9 (as amended). When the call of the GPU tool fails with anything but a missing tool
  (a timeout, a non-zero exit status, output that cannot be decoded), the result records
  the error text, and detected stays false, verified false and the mode "unknown".
\<close>

theorem gpu_invocation_failure:
  "\<not> isinstance e FileNotFoundError \<Longrightarrow>
   get_gpu_tee_status (Inl e) =
     Inr \<lparr>gpu_detected = False, gpu_tee_verified = False, nvidia_cc_mode = ''unknown'',
          gpu_model = None, error = Some (str e)\<rparr>"
  by (simp add: get_gpu_tee_status_def gpu_except_def isinstance_Exception)

theorem gpu_invocation_failure_witness:
  "\<not> isinstance (Exn TimeoutExpired ''timed out after 10 seconds'') FileNotFoundError
   \<and> get_gpu_tee_status (Inl (Exn TimeoutExpired ''timed out after 10 seconds'')) =
     Inr \<lparr>gpu_detected = False, gpu_tee_verified = False, nvidia_cc_mode = ''unknown'',
          gpu_model = None, error = Some ''timed out after 10 seconds''\<rparr>"
proof -
  have h: "\<not> isinstance (Exn TimeoutExpired ''timed out after 10 seconds'') FileNotFoundError"
    by (simp add: isinstance_def)
  show ?thesis using h gpu_invocation_failure[OF h] by simp
qed

text \<open>
  C9 as stated fails for a failure raised after the tool has run: a "Product Name" line
  without a colon raises \<^verbatim>\<open>IndexError\<close>, the error text is recorded, and detected is
  true.
\<close>

theorem gpu_parse_failure_counterexample:
  "get_gpu_tee_status (Inr ''Product Name'') =
     Inr \<lparr>gpu_detected = True, gpu_tee_verified = False, nvidia_cc_mode = ''off'',
          gpu_model = None, error = Some ''list index out of range''\<rparr>"
  by code_simp

section \<open>The collectors return\<close>

lemma get_tee_platform_returns: "\<exists>v. get_tee_platform r = Inr v"
  by (cases r) (simp_all add: get_tee_platform_def get_tee_platform_body_def isinstance_Exception)

lemma get_tee_dmesg_lines_returns: "\<exists>v. get_tee_dmesg_lines r = Inr v"
  by (cases r) (simp_all add: get_tee_dmesg_lines_def get_tee_dmesg_lines_body_def isinstance_Exception)

lemma get_vm_size_returns: "\<exists>v. get_vm_size r x = Inr v"
  by (cases r) (simp_all add: get_vm_size_def isinstance_Exception)

lemma get_azure_attestation_returns: "\<exists>v. get_azure_attestation d = Inr v"
  by (cases "get_azure_attestation_body d")
     (simp_all add: get_azure_attestation_def isinstance_Exception)

lemma get_tpm_pcr_values_returns: "\<exists>v. get_tpm_pcr_values r = Inr v"
  by (cases r) (simp_all add: get_tpm_pcr_values_def Let_def isinstance_Exception)

lemma gpu_except_returns: "\<exists>v. gpu_except e st = Inr v"
  by (simp add: gpu_except_def isinstance_Exception)

lemma get_gpu_tee_status_returns: "\<exists>v. get_gpu_tee_status r = Inr v"
proof (cases r)
  case (Inl e)
  then show ?thesis using gpu_except_returns by (simp add: get_gpu_tee_status_def)
next
  case (Inr out)
  then show ?thesis by (simp add: gpu_status_success)
qed

lemma handle_attestation_eq:
  assumes "get_tee_platform (dmesg_platform ev) = Inr p"
    and "get_tee_dmesg_lines (dmesg_lines ev) = Inr l"
    and "get_vm_size (curl_vm_size ev) (environ_VM_SIZE ev) = Inr v"
    and "get_azure_attestation (curl_attested ev) = Inr a"
    and "get_tpm_pcr_values (tpm2_pcrread ev) = Inr t"
    and "get_gpu_tee_status (nvidia_smi_q ev) = Inr g"
  shows "handle_attestation ev =
     Inr \<lparr>status = 200,
          headers = [(''Content-type'', ''application/json''),
                     (''Access-Control-Allow-Origin'', ''*'')],
          body = add_gpu_info g
                   \<lparr>platform = p,
                    tee_verified = (p \<in> set [''Intel-TDX'', ''AMD-SEV-SNP'']),
                    vm_size = v, azure_attestation = a, tpm_pcr_sha256 = t,
                    tee_dmesg = l, timestamp = utc_now ev,
                    gpu = None, resp_gpu_tee_verified = None, resp_nvidia_cc_mode = None\<rparr>\<rparr>"
  using assms by (simp add: handle_attestation_def)

lemma add_gpu_info_keeps:
  "platform (add_gpu_info g r) = platform r"
  "tee_verified (add_gpu_info g r) = tee_verified r"
  "vm_size (add_gpu_info g r) = vm_size r"
  "azure_attestation (add_gpu_info g r) = azure_attestation r"
  "tpm_pcr_sha256 (add_gpu_info g r) = tpm_pcr_sha256 r"
  "tee_dmesg (add_gpu_info g r) = tee_dmesg r"
  "timestamp (add_gpu_info g r) = timestamp r"
  by (simp_all add: add_gpu_info_def)

lemma handle_attestation_platform:
  "\<exists>h p. handle_attestation ev = Inr h \<and> get_tee_platform (dmesg_platform ev) = Inr p
     \<and> platform (body h) = p
     \<and> tee_verified (body h) = (p = ''Intel-TDX'' \<or> p = ''AMD-SEV-SNP'')"
proof -
  obtain p where p: "get_tee_platform (dmesg_platform ev) = Inr p"
    using get_tee_platform_returns by blast
  obtain l where l: "get_tee_dmesg_lines (dmesg_lines ev) = Inr l"
    using get_tee_dmesg_lines_returns by blast
  obtain v where v: "get_vm_size (curl_vm_size ev) (environ_VM_SIZE ev) = Inr v"
    using get_vm_size_returns by blast
  obtain a where a: "get_azure_attestation (curl_attested ev) = Inr a"
    using get_azure_attestation_returns by blast
  obtain t where t: "get_tpm_pcr_values (tpm2_pcrread ev) = Inr t"
    using get_tpm_pcr_values_returns by blast
  obtain g where g: "get_gpu_tee_status (nvidia_smi_q ev) = Inr g"
    using get_gpu_tee_status_returns by blast
  show ?thesis
    using p by (simp add: handle_attestation_eq[OF p l v a t g] add_gpu_info_keeps)
qed








section \<open>The response\<close>

text \<open>
  C1. Every request is answered, and in the answer tee_verified is true exactly when the
  platform is Intel-TDX or AMD-SEV-SNP, the platform being what the detector returns for
  the kernel log. Changing the outcome of every other external call (the second read of
  the kernel log, the VM size, the attestation document, the TPM, the GPU tool, the clock)
  leaves tee_verified as it is.
\<close>

theorem tee_verified_platform_only:
  "\<exists>h h'. handle_attestation ev = Inr h
     \<and> handle_attestation (ev\<lparr>dmesg_lines := d, curl_vm_size := c, environ_VM_SIZE := x,
                                curl_attested := a, tpm2_pcrread := t, nvidia_smi_q := g,
                                utc_now := n\<rparr>) = Inr h'
     \<and> tee_verified (body h) = (platform (body h) = ''Intel-TDX'' \<or> platform (body h) = ''AMD-SEV-SNP'')
     \<and> get_tee_platform (dmesg_platform ev) = Inr (platform (body h))
     \<and> tee_verified (body h') = tee_verified (body h)"
proof -
  let ?ev' = "ev\<lparr>dmesg_lines := d, curl_vm_size := c, environ_VM_SIZE := x,
                  curl_attested := a, tpm2_pcrread := t, nvidia_smi_q := g, utc_now := n\<rparr>"
  obtain h p where h: "handle_attestation ev = Inr h"
      "get_tee_platform (dmesg_platform ev) = Inr p" "platform (body h) = p"
      "tee_verified (body h) = (p = ''Intel-TDX'' \<or> p = ''AMD-SEV-SNP'')"
    using handle_attestation_platform[of ev] by blast
  obtain h' p' where h': "handle_attestation ?ev' = Inr h'"
      "get_tee_platform (dmesg_platform ?ev') = Inr p'" "platform (body h') = p'"
      "tee_verified (body h') = (p' = ''Intel-TDX'' \<or> p' = ''AMD-SEV-SNP'')"
    using handle_attestation_platform[of ?ev'] by blast
  have "p' = p" using h(2) h'(2) by simp
  then show ?thesis using h h' by auto
qed

theorem tee_verified_platform_only_witness:
  "\<exists>h. handle_attestation degraded_env = Inr h \<and> platform (body h) = ''Intel-TDX''
     \<and> tee_verified (body h)"
proof -
  have p: "get_tee_platform (dmesg_platform degraded_env) = Inr ''Intel-TDX''"
    by code_simp
  obtain h where h: "handle_attestation degraded_env = Inr h"
     "tee_verified (body h) = (platform (body h) = ''Intel-TDX'' \<or> platform (body h) = ''AMD-SEV-SNP'')"
     "get_tee_platform (dmesg_platform degraded_env) = Inr (platform (body h))"
    using tee_verified_platform_only[where ev = degraded_env
        and d = "Inr ''sev''" and c = "Inr ''Standard_DC4es_v5''" and x = None
        and a = "Inr (JObj [])" and t = "Inr []" and g = "Inr []" and n = "[]"]
    by blast
  have "platform (body h) = ''Intel-TDX''" using p h(3) by simp
  then show ?thesis using h by blast
qed

text \<open>
  C10. When the GPU status has detected = true and no model, the response has the key
  gpu, with the value "NVIDIA-GPU".
\<close>

theorem gpu_default_model_name:
  "get_gpu_tee_status (nvidia_smi_q ev) = Inr g \<Longrightarrow> gpu_detected g \<Longrightarrow> gpu_model g = None \<Longrightarrow>
   \<exists>h. handle_attestation ev = Inr h \<and> gpu (body h) = Some ''NVIDIA-GPU''"
proof -
  assume g: "get_gpu_tee_status (nvidia_smi_q ev) = Inr g"
    and d: "gpu_detected g" and m: "gpu_model g = None"
  obtain p where p: "get_tee_platform (dmesg_platform ev) = Inr p"
    using get_tee_platform_returns by blast
  obtain l where l: "get_tee_dmesg_lines (dmesg_lines ev) = Inr l"
    using get_tee_dmesg_lines_returns by blast
  obtain v where v: "get_vm_size (curl_vm_size ev) (environ_VM_SIZE ev) = Inr v"
    using get_vm_size_returns by blast
  obtain a where a: "get_azure_attestation (curl_attested ev) = Inr a"
    using get_azure_attestation_returns by blast
  obtain t where t: "get_tpm_pcr_values (tpm2_pcrread ev) = Inr t"
    using get_tpm_pcr_values_returns by blast
  show ?thesis
    using d m by (simp add: handle_attestation_eq[OF p l v a t g] add_gpu_info_def)
qed

theorem gpu_default_model_name_witness:
  "get_gpu_tee_status (nvidia_smi_q degraded_env) =
      Inr \<lparr>gpu_detected = True, gpu_tee_verified = False, nvidia_cc_mode = ''off'',
           gpu_model = None, error = None\<rparr>
   \<and> (\<exists>h. handle_attestation degraded_env = Inr h \<and> gpu (body h) = Some ''NVIDIA-GPU'')"
proof -
  have g: "get_gpu_tee_status (nvidia_smi_q degraded_env) =
      Inr \<lparr>gpu_detected = True, gpu_tee_verified = False, nvidia_cc_mode = ''off'',
           gpu_model = None, error = None\<rparr>"
    by code_simp
  show ?thesis using g gpu_default_model_name[OF g] by simp
qed



section \<open>TPM registers: the lines of the output\<close>

lemma tpm_line_eq:
  "tpm_line line m =
     (if is_entry line then m(spec_label (strip line) \<mapsto> second_part (strip line)) else m)"
proof (cases "is_entry line")
  case False
  then show ?thesis by (auto simp: tpm_line_def is_entry_def contains_single)
next
  case True
  then have c: "CHR '':'' \<in> set line" and x: "contains ''0x'' line"
    by (simp_all add: is_entry_def)
  have cs: "CHR '':'' \<in> set (strip line)"
    using c colon_not_space by (rule set_strip)
  have len: "2 \<le> length (split_on (CHR '':'') (strip line))"
    using cs by (simp add: split_on_length_ge2)
  have p0: "split_on (CHR '':'') (strip line) ! 0 = takeWhile (\<lambda>c. c \<noteq> CHR '':'') (strip line)"
    by (rule nth0_split_on)
  have p1: "split_on (CHR '':'') (strip line) ! 1 =
       takeWhile (\<lambda>c. c \<noteq> CHR '':'') (tl (dropWhile (\<lambda>c. c \<noteq> CHR '':'') (strip line)))"
    using cs by (rule nth1_split_on)
  have "tpm_line line m =
       m(strip (split_on (CHR '':'') (strip line) ! 0) \<mapsto> strip (split_on (CHR '':'') (strip line) ! 1))"
    using c x len by (simp add: tpm_line_def contains_single Let_def)
  then show ?thesis using True by (simp only: p0 p1 spec_label_def second_part_def if_True)
qed

lemma map_add_snoc: "m ++ map_of (xs @ [(k, v)]) = m(k \<mapsto> v) ++ map_of xs"
  by (rule ext) (simp add: map_add_def split: option.splits)

lemma tpm_loop_map_of:
  "tpm_loop ls m =
     m ++ map_of (rev (map (\<lambda>l. (spec_label (strip l), second_part (strip l))) (filter is_entry ls)))"
proof (induction ls arbitrary: m)
  case Nil
  then show ?case by simp
next
  case (Cons l ls)
  let ?f = "\<lambda>l. (spec_label (strip l), second_part (strip l))"
  show ?case
  proof (cases "is_entry l")
    case True
    have "tpm_loop (l # ls) m = tpm_loop ls (m(spec_label (strip l) \<mapsto> second_part (strip l)))"
      using True by (simp add: tpm_line_eq)
    also have "\<dots> = m(spec_label (strip l) \<mapsto> second_part (strip l))
                     ++ map_of (rev (map ?f (filter is_entry ls)))"
      by (rule Cons.IH)
    also have "\<dots> = m ++ map_of (rev (map ?f (filter is_entry ls))
                                  @ [(spec_label (strip l), second_part (strip l))])"
      by (rule map_add_snoc[symmetric])
    also have "rev (map ?f (filter is_entry ls)) @ [(spec_label (strip l), second_part (strip l))]
                 = rev (map ?f (filter is_entry (l # ls)))"
      using True by simp
    finally show ?thesis .
  next
    case False
    then show ?thesis using Cons.IH by (simp add: tpm_line_eq)
  qed
qed

lemma tpm_success_table:
  "get_tpm_pcr_values (Inr out) =
       Inr (map_of (rev (map (\<lambda>l. (spec_label (strip l), second_part (strip l)))
                          (filter is_entry (split_on nl out)))))"
  by (simp add: get_tpm_pcr_values_def Let_def tpm_loop_map_of)

lemma tpm_success_keys:
  "\<exists>t. get_tpm_pcr_values (Inr out) = Inr t
      \<and> dom t = (\<lambda>l. spec_label (strip l)) ` {l \<in> set (split_on nl out). is_entry l}"
proof -
  let ?es = "rev (map (\<lambda>l. (spec_label (strip l), second_part (strip l)))
                   (filter is_entry (split_on nl out)))"
  have "dom (map_of ?es) = fst ` set ?es" by (rule dom_map_of_conv_image_fst)
  also have "\<dots> = (\<lambda>l. spec_label (strip l)) ` {l \<in> set (split_on nl out). is_entry l}"
    by (auto simp: image_iff)
  finally show ?thesis using tpm_success_table[of out] by blast
qed

lemma digit_plain:
  "is_digit c \<Longrightarrow> \<not> is_space c \<and> c \<noteq> CHR '':'' \<and> c \<noteq> nl"
  by (auto simp: is_digit_def is_space_def nl_def)

lemma hex_plain:
  "is_hex_digit c \<Longrightarrow> \<not> is_space c \<and> c \<noteq> CHR '':'' \<and> c \<noteq> nl"
  by (auto simp: is_hex_digit_def is_space_def nl_def)

lemma strip_ends:
  "\<forall>c\<in>set a. \<not> is_space c \<Longrightarrow> \<forall>c\<in>set b. \<not> is_space c \<Longrightarrow> \<not> is_space x \<Longrightarrow> \<not> is_space y \<Longrightarrow>
   strip (a @ x # mid @ y # b) = a @ x # mid @ y # b"
proof (rule strip_id, rule disjI2, rule conjI)
  assume a: "\<forall>c\<in>set a. \<not> is_space c" and x: "\<not> is_space x"
  show "\<not> is_space (hd (a @ x # mid @ y # b))"
    using a x by (cases a) auto
next
  assume b: "\<forall>c\<in>set b. \<not> is_space c" and y: "\<not> is_space y"
  have "last (a @ x # mid @ y # b) = last (y # b)" by simp
  then show "\<not> is_space (last (a @ x # mid @ y # b))"
    using b y by (cases b rule: rev_cases) auto
qed

lemma strip_leading_space: "is_space c \<Longrightarrow> strip (c # s) = strip s"
  by (simp add: strip_def lstrip_def)

lemma tpm_line_pcr_line:
  assumes n: "list_all is_digit n" and h: "list_all is_hex_digit h"
  shows "tpm_line (pcr_line n h) m = m(n \<mapsto> ''0x'' @ h)"
proof -
  let ?line = "pcr_line n h"
  have nsp: "\<forall>c\<in>set n. \<not> is_space c" and ncol: "\<forall>c\<in>set n. c \<noteq> CHR '':''"
    using n digit_plain by (auto simp: list_all_iff)
  have hsp: "\<forall>c\<in>set h. \<not> is_space c" and hcol: "\<forall>c\<in>set h. c \<noteq> CHR '':''"
    using h hex_plain by (auto simp: list_all_iff)
  have xsp: "\<not> is_space (CHR ''x'')" by (simp add: is_space_def)
  have zsp: "\<not> is_space (CHR ''0'')" by (simp add: is_space_def)
  have sp: "is_space (CHR '' '')" by (simp add: is_space_def)
  have st: "strip ?line = ?line"
    using strip_ends[OF nsp hsp colon_not_space xsp, of "'' 0''"] by (simp add: pcr_line_def)
  have e: "is_entry ?line"
  proof -
    have "sublist ''0x'' ((n @ '': '') @ ''0x'' @ h)" by (rule sublist_appendI)
    then show ?thesis by (simp add: is_entry_def pcr_line_def contains_sublist)
  qed
  have lab: "takeWhile (\<lambda>c. c \<noteq> CHR '':'') ?line = n"
    using ncol by (simp add: pcr_line_def takeWhile_append2 )
  have rest: "tl (dropWhile (\<lambda>c. c \<noteq> CHR '':'') ?line) = '' 0x'' @ h"
    using ncol by (simp add: pcr_line_def dropWhile_append2)
  have val: "takeWhile (\<lambda>c. c \<noteq> CHR '':'') ('' 0x'' @ h) = '' 0x'' @ h"
    using hcol by (simp add: takeWhile_eq_all_conv)
  have s1: "strip n = n" using nsp by (rule strip_no_space)
  have "strip ('' 0x'' @ h) = strip (''0x'' @ h)"
    using strip_leading_space[OF sp, of "''0x'' @ h"] by simp
  also have "\<dots> = ''0x'' @ h"
    using hsp xsp zsp by (intro strip_no_space) auto
  finally have s2: "strip ('' 0x'' @ h) = ''0x'' @ h" .
  have sl: "spec_label ?line = n"
    by (simp only: spec_label_def lab s1)
  have sv: "second_part ?line = ''0x'' @ h"
    by (simp only: second_part_def rest val s2)
  have "tpm_line ?line m = m(spec_label (strip ?line) \<mapsto> second_part (strip ?line))"
    using e by (simp only: tpm_line_eq if_True)
  then show ?thesis by (simp only: st sl sv)
qed

lemma split_two_lines:
  assumes "nl \<notin> set a" and "nl \<notin> set b"
  shows "split_on nl (a @ nl # b) = [a, b]"
  using assms split_on_append[of nl a b] by (simp add: split_on_no_sep)

lemma pcr_line_no_nl:
  "list_all is_digit n \<Longrightarrow> list_all is_hex_digit h \<Longrightarrow> nl \<notin> set (pcr_line n h)"
  using digit_plain hex_plain by (auto simp: pcr_line_def list_all_iff nl_def)

lemma digits_not_error: "list_all is_digit n \<Longrightarrow> n \<noteq> ''error''"
  by (auto simp: is_digit_def)

lemma two_pcr_lines:
  assumes "list_all is_digit n1" "list_all is_hex_digit h1"
    "list_all is_digit n2" "list_all is_hex_digit h2"
  shows "get_tpm_pcr_values (Inr (pcr_line n1 h1 @ [nl] @ pcr_line n2 h2))
           = Inr [n1 \<mapsto> ''0x'' @ h1, n2 \<mapsto> ''0x'' @ h2]"
    and "''error'' \<notin> dom [n1 \<mapsto> ''0x'' @ h1, n2 \<mapsto> ''0x'' @ h2]"
proof -
  have sp: "split_on nl (pcr_line n1 h1 @ nl # pcr_line n2 h2) = [pcr_line n1 h1, pcr_line n2 h2]"
    using assms by (intro split_two_lines pcr_line_no_nl)
  show "get_tpm_pcr_values (Inr (pcr_line n1 h1 @ [nl] @ pcr_line n2 h2))
           = Inr [n1 \<mapsto> ''0x'' @ h1, n2 \<mapsto> ''0x'' @ h2]"
    using assms by (simp add: get_tpm_pcr_values_def Let_def sp tpm_line_pcr_line)
  show "''error'' \<notin> dom [n1 \<mapsto> ''0x'' @ h1, n2 \<mapsto> ''0x'' @ h2]"
    using digits_not_error[OF assms(1)] digits_not_error[OF assms(3)] by auto
qed

text \<open>
  C7 (as amended). For output that was read, a line makes an entry exactly when it has a
  colon and the marker "0x". The line, trimmed, is split at its colons: the label is the
  text before the first colon, trimmed, and the value is the text between the first colon
  and the second one (all the text after the first colon when there is no second),
  trimmed. The table is made of these entries, a later line replacing an earlier one with
  the same label. Output made of two well-formed lines \<^verbatim>\<open>N: 0xHEX\<close> gives the table of
  exactly those two entries, without the key "error".
\<close>

theorem tpm_register_lines:
  "tpm_line line m =
     (if is_entry line then m(spec_label (strip line) \<mapsto> second_part (strip line)) else m)
   \<and> get_tpm_pcr_values (Inr out) =
       Inr (map_of (rev (map (\<lambda>l. (spec_label (strip l), second_part (strip l)))
                          (filter is_entry (split_on nl out)))))
   \<and> (list_all is_digit n1 \<and> list_all is_hex_digit h1
        \<and> list_all is_digit n2 \<and> list_all is_hex_digit h2 \<longrightarrow>
        get_tpm_pcr_values (Inr (pcr_line n1 h1 @ [nl] @ pcr_line n2 h2))
           = Inr [n1 \<mapsto> ''0x'' @ h1, n2 \<mapsto> ''0x'' @ h2]
        \<and> ''error'' \<notin> dom [n1 \<mapsto> ''0x'' @ h1, n2 \<mapsto> ''0x'' @ h2])"
proof -
  have 2: "get_tpm_pcr_values (Inr out) =
       Inr (map_of (rev (map (\<lambda>l. (spec_label (strip l), second_part (strip l)))
                          (filter is_entry (split_on nl out)))))"
    by (simp add: get_tpm_pcr_values_def Let_def tpm_loop_map_of)
  have 3: "list_all is_digit n1 \<and> list_all is_hex_digit h1
        \<and> list_all is_digit n2 \<and> list_all is_hex_digit h2 \<longrightarrow>
        get_tpm_pcr_values (Inr (pcr_line n1 h1 @ [nl] @ pcr_line n2 h2))
           = Inr [n1 \<mapsto> ''0x'' @ h1, n2 \<mapsto> ''0x'' @ h2]
        \<and> ''error'' \<notin> dom [n1 \<mapsto> ''0x'' @ h1, n2 \<mapsto> ''0x'' @ h2]"
    using two_pcr_lines by blast
  show ?thesis by (intro conjI) (rule tpm_line_eq, rule 2, rule 3)
qed

theorem tpm_register_lines_witness:
  "get_tpm_pcr_values (Inr (''0: 0x3D45'' @ [nl] @ ''17: 0xFFaa''))
     = Inr [''0'' \<mapsto> ''0x3D45'', ''17'' \<mapsto> ''0xFFaa'']
   \<and> ''error'' \<notin> dom [''0'' \<mapsto> ''0x3D45'', ''17'' \<mapsto> ''0xFFaa'']"
proof -
  have d: "list_all is_digit ''0'' \<and> list_all is_hex_digit ''3D45''
        \<and> list_all is_digit ''17'' \<and> list_all is_hex_digit ''FFaa''"
    by code_simp
  have l1: "pcr_line ''0'' ''3D45'' = ''0: 0x3D45''" and l2: "pcr_line ''17'' ''FFaa'' = ''17: 0xFFaa''"
    by (simp_all add: pcr_line_def)
  note th = tpm_register_lines[where ?n1.0 = "''0''" and ?h1.0 = "''3D45''"
      and ?n2.0 = "''17''" and ?h2.0 = "''FFaa''" and line = "[]" and m = Map.empty and out = "[]"]
  have "get_tpm_pcr_values (Inr (pcr_line ''0'' ''3D45'' @ [nl] @ pcr_line ''17'' ''FFaa''))
           = Inr [''0'' \<mapsto> ''0x'' @ ''3D45'', ''17'' \<mapsto> ''0x'' @ ''FFaa'']
        \<and> ''error'' \<notin> dom [''0'' \<mapsto> ''0x'' @ ''3D45'', ''17'' \<mapsto> ''0x'' @ ''FFaa'']"
    using th d by blast
  then show ?thesis by (simp add: l1 l2)
qed

text \<open>
  C7 as stated fails on a line with a second colon: the part after the first colon of
  \<^verbatim>\<open>0: 0xAB:CD\<close> is \<^verbatim>\<open>0xAB:CD\<close>, and the value stored is \<^verbatim>\<open>0xAB\<close>.
\<close>

theorem second_colon_counterexample:
  "is_entry ''0: 0xAB:CD''
   \<and> spec_value ''0: 0xAB:CD'' = ''0xAB:CD''
   \<and> (case get_tpm_pcr_values (Inr ''0: 0xAB:CD'') of Inr t \<Rightarrow> t ''0'' | Inl e \<Rightarrow> None) = Some ''0xAB''"
  by code_simp

section \<open>TPM registers: the error entry, or the registers\<close>

text \<open>
  C5. When the read of the registers fails (the tool is missing, the call times out, or
  anything else is raised), the table returned has exactly one entry, under the key
  "error", so it holds no register entry; for a missing tool the entry is
  "tpm2-tools not installed". When the read succeeds, the keys of the table are exactly
  the labels of the entry lines of the output: no handler has written into it. So one read
  gives either the error entry or the entries of the registers.
\<close>

theorem tpm_failure_single_error_entry:
  "(\<exists>reason. get_tpm_pcr_values (Inl e) = Inr [''error'' \<mapsto> reason]
      \<and> dom [''error'' \<mapsto> reason] = {''error''}
      \<and> (isinstance e FileNotFoundError \<longrightarrow> reason = ''tpm2-tools not installed''))
   \<and> (\<exists>t. get_tpm_pcr_values (Inr out) = Inr t
      \<and> dom t = (\<lambda>l. spec_label (strip l)) ` {l \<in> set (split_on nl out). is_entry l})"
proof
  show "\<exists>reason. get_tpm_pcr_values (Inl e) = Inr [''error'' \<mapsto> reason]
      \<and> dom [''error'' \<mapsto> reason] = {''error''}
      \<and> (isinstance e FileNotFoundError \<longrightarrow> reason = ''tpm2-tools not installed'')"
    by (auto simp: tpm_failure)
  show "\<exists>t. get_tpm_pcr_values (Inr out) = Inr t
      \<and> dom t = (\<lambda>l. spec_label (strip l)) ` {l \<in> set (split_on nl out). is_entry l}"
    by (rule tpm_success_keys)
qed

theorem tpm_failure_single_error_entry_witness:
  "isinstance (Exn FileNotFoundError ''No such file or directory: tpm2_pcrread'') FileNotFoundError
   \<and> get_tpm_pcr_values (Inl (Exn FileNotFoundError ''No such file or directory: tpm2_pcrread''))
     = Inr [''error'' \<mapsto> ''tpm2-tools not installed'']"
proof -
  have h: "isinstance (Exn FileNotFoundError ''No such file or directory: tpm2_pcrread'') FileNotFoundError"
    by (simp add: isinstance_def)
  show ?thesis
    using h tpm_failure_single_error_entry[of
        "Exn FileNotFoundError ''No such file or directory: tpm2_pcrread''" "[]"]
    by auto
qed

end
